theory Spec2Isabelle
  imports Complex_Main "HOL-Library.Sublist"
begin

section \<open>Setlist viewer: data and state\<close>

text \<open>
  JavaScript strings are sequences of UTF-16 code units. A code unit is modelled as a
  natural number, so every string the page can receive from the URL is covered (the type
  also holds numbers above \<open>0xFFFF\<close>, which no JavaScript string contains).
  \<open>utf16\<close> writes an ASCII literal as code units.
\<close>

type_synonym js_string = "nat list"

definition utf16 :: "string \<Rightarrow> js_string" where
  "utf16 s = map of_char s"

text \<open>
  \<open>src/types/index.ts\<close>, \<open>SetlistSong\<close> and \<open>Setlist\<close>. The cached
  \<open>SongDetail\<close> of a song is carried as a payload of type \<open>'d\<close>: the viewer only
  tests whether it is present and hands it on to \<open>TabDisplay\<close>. The fields \<open>type\<close>,
  \<open>id\<close> and \<open>order\<close> carry a prime, their names being taken in HOL.
\<close>

record 'd SetlistSong =
  tab_url :: js_string
  artist_name :: js_string
  song_name :: js_string
  type' :: js_string
  rating :: real
  tabData :: "'d option"

record 'd Setlist =
  id' :: js_string
  name :: js_string
  created :: js_string
  order' :: "real option"
  songs :: "'d SetlistSong list"

text \<open>
  \<open>SetlistCollection\<close>, the index signature \<open>{[setlistId: string]: Setlist}\<close>:
  a map from identifiers to setlists, a missing key reading as \<open>undefined\<close>. The
  collection is taken as this type declares it: every key holds a \<open>Setlist\<close> or
  nothing.
\<close>

type_synonym 'd SetlistCollection = "js_string \<rightharpoonup> 'd Setlist"

text \<open>
  The React state of \<open>SetlistViewerContent\<close> (the five \<open>useState\<close> cells of
  \<open>page.tsx\<close>, lines 16 to 20), and the browser history as far as the component writes
  it: \<open>pushed\<close> lists the indices \<open>updateUrl\<close> has pushed as the \<open>song\<close> parameter,
  the latest first.
\<close>

record 'd viewer_state =
  setlist :: "'d Setlist option"
  currentSongIndex :: int
  showSongList :: bool
  loading :: bool
  error :: "js_string option"
  pushed :: "int list"

definition initial_state :: "'d viewer_state" where
  "initial_state =
     \<lparr>setlist = None, currentSongIndex = 0, showSongList = False, loading = True,
      error = None, pushed = []\<rparr>"

section \<open>JavaScript primitives the page relies on\<close>

text \<open>
  Truthiness of a value of type \<open>string | null\<close>: \<open>null\<close> and the empty string
  are falsy.
\<close>

definition truthy :: "js_string option \<Rightarrow> bool" where
  "truthy v = (case v of None \<Rightarrow> False | Some s \<Rightarrow> s \<noteq> [])"

text \<open>
  Reading \<open>xs[i]\<close> from an array without holes, \<open>i\<close> an integral number: the
  element when \<open>0 \<le> i < xs.length\<close>, otherwise \<open>undefined\<close> (here \<open>None\<close>).
\<close>

definition js_index :: "'a list \<Rightarrow> int \<Rightarrow> 'a option" where
  "js_index xs i = (if 0 \<le> i \<and> i < int (length xs) then Some (xs ! nat i) else None)"

text \<open>
  \<open>parseInt(string)\<close> with no radix, after ECMA-262 (\<open>parseInt (string, radix)\<close>):
  leading white space and line terminators are trimmed, one sign is read, a prefix
  \<open>0x\<close> or \<open>0X\<close> selects radix 16 (otherwise 10), and the longest run of digits of
  that radix is the number; with no digit the result is \<open>NaN\<close>, here \<open>None\<close>.

  The result is the mathematical integer. JavaScript rounds it to a double, and yields
  \<open>-0\<close> for a negative zero: neither changes a comparison with an array length
  (below \<open>2^32\<close>, rounding is monotone and exact there), every index that passes the
  guard of the page is exact, and \<open>-0\<close> indexes, compares and prints as \<open>0\<close>.
\<close>

definition isWhiteSpace :: "nat \<Rightarrow> bool" where
  "isWhiteSpace c \<longleftrightarrow>
     c \<in> set [0x9, 0xA, 0xB, 0xC, 0xD, 0x20, 0xA0, 0x1680, 0x2028, 0x2029, 0x202F,
               0x205F, 0x3000, 0xFEFF]
     \<or> (0x2000 \<le> c \<and> c \<le> 0x200A)"

definition digitVal :: "nat \<Rightarrow> nat" where
  "digitVal c =
     (if 0x30 \<le> c \<and> c \<le> 0x39 then c - 0x30
      else if 0x61 \<le> c \<and> c \<le> 0x7A then c - 0x61 + 10
      else if 0x41 \<le> c \<and> c \<le> 0x5A then c - 0x41 + 10
      else 36)"

definition isRadixDigit :: "nat \<Rightarrow> nat \<Rightarrow> bool" where
  "isRadixDigit R c \<longleftrightarrow> digitVal c < R"

definition mathInt :: "nat \<Rightarrow> js_string \<Rightarrow> nat" where
  "mathInt R Z = foldl (\<lambda>acc c. acc * R + digitVal c) 0 Z"

definition parseInt :: "js_string \<Rightarrow> int option" where
  "parseInt inputString =
     (let S = dropWhile isWhiteSpace inputString;
          sign = (if S \<noteq> [] \<and> hd S = 0x2D then - 1 else 1 :: int);
          S1 = (if S \<noteq> [] \<and> (hd S = 0x2B \<or> hd S = 0x2D) then tl S else S);
          hex = (2 \<le> length S1 \<and> (take 2 S1 = [0x30, 0x78] \<or> take 2 S1 = [0x30, 0x58]));
          R = (if hex then 16 else 10);
          S2 = (if hex then drop 2 S1 else S1);
          Z = takeWhile (isRadixDigit R) S2
      in if Z = [] then None else Some (sign * int (mathInt R Z)))"

section \<open>The component\<close>

text \<open>
  The first effect of the component (lines 22 to 55), run with the values of the URL
  parameters \<open>id\<close> and \<open>song\<close> (\<open>searchParams.get\<close>: \<open>null\<close> when absent).
  \<open>loadSetlists\<close> belongs to \<open>@/lib/setlist\<close>; what it returns is the parameter
  \<open>setlists\<close>. Each \<open>set...\<close> call of the effect is an update of the state.
\<close>

definition loadEffect ::
  "'d SetlistCollection \<Rightarrow> js_string option \<Rightarrow> js_string option \<Rightarrow>
   'd viewer_state \<Rightarrow> 'd viewer_state" where
  "loadEffect setlists setlistId songIndexParam st =
     (case (if truthy setlistId then setlistId else None) of
        None \<Rightarrow> st\<lparr>error := Some (utf16 ''No setlist ID provided''), loading := False\<rparr>
      | Some sid \<Rightarrow>
          (case setlists sid of
             None \<Rightarrow> st\<lparr>error := Some (utf16 ''Setlist not found''), loading := False\<rparr>
           | Some foundSetlist \<Rightarrow>
               if length (songs foundSetlist) = 0
               then st\<lparr>error := Some (utf16 ''This setlist is empty''), loading := False\<rparr>
               else
                 let st1 = st\<lparr>setlist := Some foundSetlist\<rparr>;
                     st2 =
                       (case (if truthy songIndexParam then songIndexParam else None) of
                          None \<Rightarrow> st1
                        | Some p \<Rightarrow>
                            (case parseInt p of
                               None \<Rightarrow> st1
                             | Some index \<Rightarrow>
                                 if index \<ge> 0 \<and> index < int (length (songs foundSetlist))
                                 then st1\<lparr>currentSongIndex := index\<rparr>
                                 else st1))
                 in st2\<lparr>loading := False\<rparr>))"

text \<open>\<open>updateUrl\<close> (lines 101 to 105) pushes a history entry whose \<open>song\<close> parameter is the index.\<close>

definition updateUrl :: "int \<Rightarrow> 'd viewer_state \<Rightarrow> 'd viewer_state" where
  "updateUrl index st = st\<lparr>pushed := index # pushed st\<rparr>"

text \<open>
  \<open>goToPreviousSong\<close> (lines 81 to 86) and \<open>goToNextSong\<close> (lines 88 to 93). Both
  read \<open>currentSongIndex\<close> and \<open>setlist\<close> of the render that created them, the
  state \<open>st\<close> here, and set the index from that value. In the second,
  \<open>setlist.songs.length - 1\<close> is a subtraction of numbers: it is \<open>-1\<close> for an empty
  list, not cut off at zero.
\<close>

definition goToPreviousSong :: "'d viewer_state \<Rightarrow> 'd viewer_state" where
  "goToPreviousSong st =
     (if currentSongIndex st > 0
      then updateUrl (currentSongIndex st - 1) (st\<lparr>currentSongIndex := currentSongIndex st - 1\<rparr>)
      else st)"

definition goToNextSong :: "'d viewer_state \<Rightarrow> 'd viewer_state" where
  "goToNextSong st =
     (case setlist st of
        None \<Rightarrow> st
      | Some sl \<Rightarrow>
          if currentSongIndex st < int (length (songs sl)) - 1
          then updateUrl (currentSongIndex st + 1) (st\<lparr>currentSongIndex := currentSongIndex st + 1\<rparr>)
          else st)"

text \<open>\<open>goToSong\<close> (lines 95 to 99), called from the song list with an index of the list.\<close>

definition goToSong :: "int \<Rightarrow> 'd viewer_state \<Rightarrow> 'd viewer_state" where
  "goToSong index st = updateUrl index (st\<lparr>currentSongIndex := index, showSongList := False\<rparr>)"

text \<open>
  What the component renders (lines 107 to 223). Line 128 reads
  \<open>setlist.songs[currentSongIndex]\<close> and line 130 reads \<open>currentSong.tabData\<close>: when the
  index is out of range the first is \<open>undefined\<close> and the second throws a
  \<open>TypeError\<close>.
\<close>

datatype js_error = TypeError

datatype 'd view =
    Spinner
  | ErrorAlert js_string
  | NoCachedData
  | SongView "'d SetlistSong" 'd

definition render :: "'d viewer_state \<Rightarrow> js_error + 'd view" where
  "render st =
     (if loading st then Inr Spinner
      else
        (case (if truthy (error st) then error st else None) of
           Some e \<Rightarrow> Inr (ErrorAlert e)
         | None \<Rightarrow>
             (case setlist st of
                None \<Rightarrow> Inr (ErrorAlert (utf16 ''Failed to load setlist''))
              | Some sl \<Rightarrow>
                  (case js_index (songs sl) (currentSongIndex st) of
                     None \<Rightarrow> Inl TypeError
                   | Some currentSong \<Rightarrow>
                       (case tabData currentSong of
                          None \<Rightarrow> Inr NoCachedData
                        | Some d \<Rightarrow> Inr (SongView currentSong d))))))"

text \<open>
  A setlist of three songs with cached data, the collection that holds it under the key
  \<open>s1\<close>, and the viewer showing its song \<open>i\<close>: the inputs on which the theorems
  below are run.
\<close>

definition demo_song :: "string \<Rightarrow> unit SetlistSong" where
  "demo_song title =
     \<lparr>tab_url = utf16 ''/tab/demo'', artist_name = utf16 ''Demo'', song_name = utf16 title,
      type' = utf16 ''Chords'', rating = 5, tabData = Some ()\<rparr>"

definition demo_setlist :: "unit Setlist" where
  "demo_setlist =
     \<lparr>id' = utf16 ''s1'', name = utf16 ''Gig'', created = utf16 ''2024-01-01'', order' = None,
      songs = [demo_song ''one'', demo_song ''two'', demo_song ''three'']\<rparr>"

definition demo_setlists :: "unit SetlistCollection" where
  "demo_setlists = [utf16 ''s1'' \<mapsto> demo_setlist]"

definition demo_state :: "int \<Rightarrow> unit viewer_state" where
  "demo_state i =
     initial_state\<lparr>setlist := Some demo_setlist, currentSongIndex := i, loading := False\<rparr>"

section \<open>Chord tags: \<open>extractChord\<close>\<close>

text \<open>
  Modelled from the spec: \<open>extractChord\<close>, its result type and its steps are not among
  the source files; this section follows the specification, section 3 (\<open>ChordToken\<close>)
  and section 4.1 (the algorithm of \<open>extractChord\<close>, steps 1 to 4).

  The chord token of the data model: \<open>rawText\<close>, "the tag interior as scraped", the
  root, the quality, and the bass note when there is one (\<open>string | null\<close>). The one
  error of \<open>extractChord\<close> is \<open>MalformedChordError\<close>.
\<close>

datatype chord_error = MalformedChordError

record ChordToken =
  rawText :: string
  root :: string
  quality :: string
  bass :: "string option"

text \<open>
  Modelled from the spec: the note grammar, "one note letter, optional \<open>#\<close>/\<open>b\<close>",
  the letter "one of \<open>{A..G}\<close>".
\<close>

definition isNoteLetter :: "char \<Rightarrow> bool" where
  "isNoteLetter c \<longleftrightarrow> c \<in> set ''ABCDEFG''"

definition isAccidental :: "char \<Rightarrow> bool" where
  "isAccidental c \<longleftrightarrow> c = CHR ''#'' \<or> c = CHR ''b''"

text \<open>
  Modelled from the spec: step 1, "the longest prefix matching \<open>root\<close> grammar".
  \<open>takeNote\<close> returns that prefix with the remainder, and nothing when the text does
  not start with a note letter; step 3 reads the bass note the same way.
\<close>

fun takeNote :: "string \<Rightarrow> (string \<times> string) option" where
  "takeNote [] = None"
| "takeNote (c # cs) =
     (if isNoteLetter c
      then (case cs of
              [] \<Rightarrow> Some ([c], [])
            | a # rest \<Rightarrow> if isAccidental a then Some ([c, a], rest) else Some ([c], cs))
      else None)"

text \<open>
  Modelled from the spec: step 2, "greedily consume all characters that are neither
  \<open>/\<close> nor the close-tag marker into quality". The close-tag marker of a chord tag is
  \<open>[/ch]\<close>; the scan stops in front of a \<open>/\<close> and in front of the marker.
\<close>

definition closeTag :: string where
  "closeTag = ''[/ch]''"

fun takeQuality :: "string \<Rightarrow> string \<times> string" where
  "takeQuality [] = ([], [])"
| "takeQuality (c # cs) =
     (if c = CHR ''/'' \<or> prefix closeTag (c # cs) then ([], c # cs)
      else (case takeQuality cs of (q, rest) \<Rightarrow> (c # q, rest)))"

text \<open>
  Modelled from the spec: step 3. When the next character is \<open>/\<close> and a note letter
  follows it at once, the note (letter and optional accidental) is the bass. Otherwise
  there is no bass; the run of \<open>/\<close> that the specification strips then belongs to the
  text after the quality, which no field of the token holds.
\<close>

definition takeBass :: "string \<Rightarrow> string option" where
  "takeBass rest =
     (case rest of
        [] \<Rightarrow> None
      | c # cs \<Rightarrow>
          if c = CHR ''/''
          then (case takeNote cs of Some (b, _) \<Rightarrow> Some b | None \<Rightarrow> None)
          else None)"

text \<open>
  Modelled from the spec: \<open>extractChord\<close>, steps 1 to 4. A tag interior with no root
  gives \<open>MalformedChordError\<close> as a value (the specification: it "does not raise").
\<close>

definition extractChord :: "string \<Rightarrow> chord_error + ChordToken" where
  "extractChord rawTagInterior =
     (case takeNote rawTagInterior of
        None \<Rightarrow> Inl MalformedChordError
      | Some (r, rest) \<Rightarrow>
          (case takeQuality rest of
             (q, rest') \<Rightarrow>
               Inr \<lparr>rawText = rawTagInterior, root = r, quality = q, bass = takeBass rest'\<rparr>))"

text \<open>
  Modelled from the spec: the bass note in the words of the data model ("present only if
  a \<open>/\<close> is followed by a valid note letter"), read off the tag interior without the
  scan: the note letter, with its accidental if it has one, that stands immediately
  after the first \<open>/\<close>; nothing when there is no \<open>/\<close> or when something else
  follows it.
\<close>

definition noteAfterFirstSlash :: "string \<Rightarrow> string option" where
  "noteAfterFirstSlash s =
     (case dropWhile (\<lambda>c. c \<noteq> CHR ''/'') s of
        [] \<Rightarrow> None
      | _ # [] \<Rightarrow> None
      | _ # c # after \<Rightarrow>
          if isNoteLetter c
          then Some (c # (case after of [] \<Rightarrow> [] | a # _ \<Rightarrow> if isAccidental a then [a] else []))
          else None)"

section \<open>Setlist viewer: the initial index and navigation\<close>

lemmas parseInt_eval =
  parseInt_def utf16_def isWhiteSpace_def isRadixDigit_def digitVal_def mathInt_def

lemma parseInt_empty: "parseInt [] = None"
  by (simp add: parseInt_def)

lemma js_index_None_iff: "js_index xs i = None \<longleftrightarrow> \<not> (0 \<le> i \<and> i < int (length xs))"
  by (simp add: js_index_def)

text \<open>
  One run of the effect from any state: either it reports an error and leaves setlist and
  index alone, or it stores a non-empty setlist and sets the index from the parameter
  when that parses to a position of the list.
\<close>

lemma loadEffect_cases:
  "loadEffect setlists setlistId songIndexParam st = st' \<Longrightarrow>
   (setlist st' = setlist st \<and> currentSongIndex st' = currentSongIndex st \<and>
    truthy (error st') \<and> \<not> loading st')
   \<or> (\<exists>sl. setlist st' = Some sl \<and> songs sl \<noteq> [] \<and> error st' = error st \<and> \<not> loading st' \<and>
        currentSongIndex st' =
          (case songIndexParam of
             None \<Rightarrow> currentSongIndex st
           | Some p \<Rightarrow>
               (case parseInt p of
                  None \<Rightarrow> currentSongIndex st
                | Some n \<Rightarrow>
                    if 0 \<le> n \<and> n < int (length (songs sl)) then n else currentSongIndex st)))"
  by (auto simp: loadEffect_def truthy_def utf16_def parseInt_empty Let_def
      split: option.splits if_splits)

lemma loadEffect_found:
  "setlist (loadEffect setlists setlistId songIndexParam initial_state) = Some sl \<Longrightarrow>
   \<exists>sid. setlistId = Some sid \<and> sid \<noteq> [] \<and> setlists sid = Some sl"
  by (auto simp: loadEffect_def truthy_def initial_state_def Let_def
      split: option.splits if_splits)

text \<open>
  Claim C10. On the first run of the effect (from the initial state, index 0), for every
  collection and every value of the \<open>id\<close> and \<open>song\<close> parameters: when no setlist is
  stored the index is still 0; when a setlist is stored, the index is the number the
  \<open>song\<close> parameter parses to if that number \<open>n\<close> satisfies \<open>0 \<le> n < songs.length\<close>, and
  0 for a missing, non-numeric, negative or too large parameter; the read
  \<open>setlist.songs[currentSongIndex]\<close> is then in bounds, and rendering does not throw.
\<close>

theorem initial_song_index:
  assumes run: "st' = loadEffect setlists setlistId songIndexParam initial_state"
  shows "(case setlist st' of
            None \<Rightarrow> currentSongIndex st' = 0
          | Some sl \<Rightarrow>
              currentSongIndex st' =
                (case songIndexParam of
                   None \<Rightarrow> 0
                 | Some p \<Rightarrow>
                     (case parseInt p of
                        None \<Rightarrow> 0
                      | Some n \<Rightarrow> if 0 \<le> n \<and> n < int (length (songs sl)) then n else 0))
              \<and> js_index (songs sl) (currentSongIndex st') \<noteq> None)
         \<and> render st' \<noteq> Inl TypeError"
proof -
  from loadEffect_cases[OF run[symmetric]]
  consider (err) "setlist st' = None" "currentSongIndex st' = 0" "truthy (error st')"
    | (ok) sl where "setlist st' = Some sl" "songs sl \<noteq> []"
        "currentSongIndex st' =
          (case songIndexParam of
             None \<Rightarrow> 0
           | Some p \<Rightarrow>
               (case parseInt p of
                  None \<Rightarrow> 0
                | Some n \<Rightarrow> if 0 \<le> n \<and> n < int (length (songs sl)) then n else 0))"
    by (auto simp: initial_state_def cong: option.case_cong if_cong)
  then show ?thesis
  proof cases
    case err
    then show ?thesis by (simp add: render_def split: option.splits)
  next
    case ok
    from ok(2) have len: "0 < int (length (songs sl))" by simp
    from ok(3) len
    have "0 \<le> currentSongIndex st' \<and> currentSongIndex st' < int (length (songs sl))"
      by (auto split: option.splits if_splits)
    then have "js_index (songs sl) (currentSongIndex st') \<noteq> None"
      by (simp add: js_index_None_iff)
    with ok(1,3) show ?thesis
      by (auto simp: render_def split: option.splits)
  qed
qed

lemma demo_found:
  "setlist (loadEffect demo_setlists (Some (utf16 ''s1'')) p initial_state) = Some demo_setlist"
  by (simp add: loadEffect_def truthy_def demo_setlists_def demo_setlist_def utf16_def Let_def
      split: option.splits)

lemma demo_length: "length (songs demo_setlist) = 3"
  by (simp add: demo_setlist_def)

theorem initial_song_index_witness:
  "currentSongIndex (loadEffect demo_setlists (Some (utf16 ''s1'')) (Some (utf16 ''2'')) initial_state) = 2
   \<and> currentSongIndex (loadEffect demo_setlists (Some (utf16 ''s1'')) (Some (utf16 '' 0x1z'')) initial_state) = 1
   \<and> currentSongIndex (loadEffect demo_setlists (Some (utf16 ''s1'')) (Some (utf16 ''7'')) initial_state) = 0
   \<and> currentSongIndex (loadEffect demo_setlists (Some (utf16 ''s1'')) (Some (utf16 ''-1'')) initial_state) = 0
   \<and> currentSongIndex (loadEffect demo_setlists (Some (utf16 ''s1'')) (Some (utf16 ''abc'')) initial_state) = 0
   \<and> currentSongIndex (loadEffect demo_setlists (Some (utf16 ''s1'')) None initial_state) = 0
   \<and> currentSongIndex (loadEffect demo_setlists (Some (utf16 ''nope'')) (Some (utf16 ''2'')) initial_state) = 0
   \<and> render (loadEffect demo_setlists (Some (utf16 ''s1'')) (Some (utf16 ''2'')) initial_state)
       = Inr (SongView (demo_song ''three'') ())"
proof -
  have p2: "parseInt (utf16 ''2'') = Some 2" by (simp add: parseInt_eval)
  have p7: "parseInt (utf16 ''7'') = Some 7" by (simp add: parseInt_eval)
  have px: "parseInt (utf16 '' 0x1z'') = Some 1" by (simp add: parseInt_eval)
  have pm: "parseInt (utf16 ''-1'') = Some (- 1)" by (simp add: parseInt_eval)
  have pa: "parseInt (utf16 ''abc'') = None" by (simp add: parseInt_eval)
  have nf: "setlist (loadEffect demo_setlists (Some (utf16 ''nope'')) (Some (utf16 ''2'')) initial_state) = None"
    by (simp add: loadEffect_def truthy_def demo_setlists_def utf16_def initial_state_def)
  have r: "render (loadEffect demo_setlists (Some (utf16 ''s1'')) (Some (utf16 ''2'')) initial_state)
       = Inr (SongView (demo_song ''three'') ())"
    by (simp add: loadEffect_def truthy_def demo_setlists_def demo_setlist_def utf16_def Let_def
        p2[unfolded utf16_def, simplified] initial_state_def render_def js_index_def demo_song_def)
  show ?thesis
    using initial_song_index[OF refl, of demo_setlists "Some (utf16 ''s1'')" "Some (utf16 ''2'')"]
      initial_song_index[OF refl, of demo_setlists "Some (utf16 ''s1'')" "Some (utf16 '' 0x1z'')"]
      initial_song_index[OF refl, of demo_setlists "Some (utf16 ''s1'')" "Some (utf16 ''7'')"]
      initial_song_index[OF refl, of demo_setlists "Some (utf16 ''s1'')" "Some (utf16 ''-1'')"]
      initial_song_index[OF refl, of demo_setlists "Some (utf16 ''s1'')" "Some (utf16 ''abc'')"]
      initial_song_index[OF refl, of demo_setlists "Some (utf16 ''s1'')" None]
      initial_song_index[OF refl, of demo_setlists "Some (utf16 ''nope'')" "Some (utf16 ''2'')"]
    by (simp add: demo_found demo_length p2 p7 px pm pa nf r)
qed

lemma goToPreviousSong_index:
  "currentSongIndex (goToPreviousSong st) =
     (if currentSongIndex st > 0 then currentSongIndex st - 1 else currentSongIndex st)"
  by (simp add: goToPreviousSong_def updateUrl_def)

lemma goToNextSong_index:
  "setlist st = Some sl \<Longrightarrow>
   currentSongIndex (goToNextSong st) =
     (if currentSongIndex st < int (length (songs sl)) - 1 then currentSongIndex st + 1
      else currentSongIndex st)"
  by (simp add: goToNextSong_def updateUrl_def)

lemma goTo_setlist:
  "setlist (goToPreviousSong st) = setlist st" "setlist (goToNextSong st) = setlist st"
  by (simp_all add: goToPreviousSong_def goToNextSong_def updateUrl_def split: option.splits)

text \<open>
  Claim C9. For a viewer that holds a setlist with at least one song and an index within
  \<open>[0, songs.length - 1]\<close>: \<open>goToPreviousSong\<close> leaves the index unchanged when it is 0
  and otherwise decrements it by 1, \<open>goToNextSong\<close> leaves it unchanged when it is
  \<open>songs.length - 1\<close> and otherwise increments it by 1; neither changes the setlist, and
  the index stays within \<open>[0, songs.length - 1]\<close>.
\<close>

theorem navigation_keeps_index_in_range:
  assumes sl: "setlist st = Some sl"
    and nonempty: "songs sl \<noteq> []"
    and lo: "0 \<le> currentSongIndex st"
    and hi: "currentSongIndex st \<le> int (length (songs sl)) - 1"
  shows "currentSongIndex (goToPreviousSong st) =
           (if currentSongIndex st = 0 then currentSongIndex st else currentSongIndex st - 1)
       \<and> currentSongIndex (goToNextSong st) =
           (if currentSongIndex st = int (length (songs sl)) - 1 then currentSongIndex st
            else currentSongIndex st + 1)
       \<and> setlist (goToPreviousSong st) = Some sl
       \<and> setlist (goToNextSong st) = Some sl
       \<and> 0 \<le> currentSongIndex (goToPreviousSong st)
       \<and> currentSongIndex (goToPreviousSong st) \<le> int (length (songs sl)) - 1
       \<and> 0 \<le> currentSongIndex (goToNextSong st)
       \<and> currentSongIndex (goToNextSong st) \<le> int (length (songs sl)) - 1"
proof -
  have prev: "currentSongIndex (goToPreviousSong st) =
           (if currentSongIndex st = 0 then currentSongIndex st else currentSongIndex st - 1)"
    using lo by (simp add: goToPreviousSong_index)
  have nxt: "currentSongIndex (goToNextSong st) =
           (if currentSongIndex st = int (length (songs sl)) - 1 then currentSongIndex st
            else currentSongIndex st + 1)"
    using hi by (simp add: goToNextSong_index[OF sl])
  from prev lo hi have "0 \<le> currentSongIndex (goToPreviousSong st)"
    "currentSongIndex (goToPreviousSong st) \<le> int (length (songs sl)) - 1"
    by (simp_all split: if_splits)
  moreover from nxt lo hi have "0 \<le> currentSongIndex (goToNextSong st)"
    "currentSongIndex (goToNextSong st) \<le> int (length (songs sl)) - 1"
    by (simp_all split: if_splits)
  ultimately show ?thesis
    using prev nxt sl by (simp add: goTo_setlist)
qed

theorem navigation_keeps_index_in_range_witness:
  "currentSongIndex (goToPreviousSong (demo_state 0)) = 0
   \<and> currentSongIndex (goToPreviousSong (demo_state 2)) = 1
   \<and> currentSongIndex (goToNextSong (demo_state 0)) = 1
   \<and> currentSongIndex (goToNextSong (demo_state 2)) = 2"
proof -
  have s: "setlist (demo_state i) = Some demo_setlist" "currentSongIndex (demo_state i) = i" for i
    by (simp_all add: demo_state_def)
  have ne: "songs demo_setlist \<noteq> []" by (simp add: demo_setlist_def)
  show ?thesis
    using navigation_keeps_index_in_range[OF s(1) ne, of 0]
      navigation_keeps_index_in_range[OF s(1) ne, of 2]
    by (simp add: s demo_length)
qed

section \<open>Chord tags: what the scan returns\<close>

lemma takeNote_Some:
  "takeNote s = Some (n, rest) \<Longrightarrow> s = n @ rest \<and> CHR ''/'' \<notin> set n"
  by (cases s) (auto simp: isNoteLetter_def isAccidental_def split: if_splits list.splits)

lemma takeNote_None_iff: "takeNote s = None \<longleftrightarrow> (s = [] \<or> \<not> isNoteLetter (hd s))"
  by (cases s) (auto split: list.splits)

lemma takeQuality_split: "takeQuality s = (q, rest) \<Longrightarrow> s = q @ rest"
  by (induction s arbitrary: q rest) (auto split: if_splits prod.splits)

lemma takeQuality_no_slash: "takeQuality s = (q, rest) \<Longrightarrow> CHR ''/'' \<notin> set q"
  by (induction s arbitrary: q rest) (auto split: if_splits prod.splits)

lemma takeQuality_stop:
  "takeQuality s = (q, rest) \<Longrightarrow> rest = [] \<or> hd rest = CHR ''/'' \<or> prefix closeTag rest"
  by (induction s arbitrary: q rest) (auto split: if_splits prod.splits)

lemma dropWhile_no_slash:
  "CHR ''/'' \<notin> set p \<Longrightarrow>
   dropWhile (\<lambda>c. c \<noteq> CHR ''/'') (p @ x) = dropWhile (\<lambda>c. c \<noteq> CHR ''/'') x"
  by (induction p) auto

lemma takeBass_no_slash: "takeBass rest = Some b \<Longrightarrow> CHR ''/'' \<notin> set b"
  by (auto simp: takeBass_def split: list.splits if_splits option.splits dest: takeNote_Some)

lemma noteAfterFirstSlash_Nil: "noteAfterFirstSlash [] = None"
  by (simp add: noteAfterFirstSlash_def)

lemma noteAfterFirstSlash_slash:
  "noteAfterFirstSlash (CHR ''/'' # cs) = (case takeNote cs of Some (b, _) \<Rightarrow> Some b | None \<Rightarrow> None)"
proof (cases cs)
  case Nil
  then show ?thesis by (simp add: noteAfterFirstSlash_def)
next
  case (Cons c after)
  then show ?thesis by (cases after) (simp_all add: noteAfterFirstSlash_def)
qed

lemma noteAfterFirstSlash_closeTag: "noteAfterFirstSlash (closeTag @ x) = None"
  by (simp add: noteAfterFirstSlash_def closeTag_def isNoteLetter_def)

lemma takeBass_eq:
  assumes "rest = [] \<or> hd rest = CHR ''/'' \<or> prefix closeTag rest"
  shows "takeBass rest = noteAfterFirstSlash rest"
  using assms
proof (elim disjE)
  assume "rest = []"
  then show ?thesis by (simp add: takeBass_def noteAfterFirstSlash_Nil)
next
  assume h: "hd rest = CHR ''/''"
  show ?thesis
  proof (cases rest)
    case Nil
    then show ?thesis by (simp add: takeBass_def noteAfterFirstSlash_Nil)
  next
    case (Cons c cs)
    with h have "rest = CHR ''/'' # cs" by simp
    then show ?thesis by (simp add: takeBass_def noteAfterFirstSlash_slash)
  qed
next
  assume "prefix closeTag rest"
  then obtain x where x: "rest = closeTag @ x" by (auto simp: prefix_def)
  have "takeBass (closeTag @ x) = None" by (simp add: takeBass_def closeTag_def)
  with x show ?thesis by (simp add: noteAfterFirstSlash_closeTag)
qed

lemma extractChord_Inr:
  assumes "extractChord s = Inr t"
  obtains r q rest where "takeNote s = Some (r, q @ rest)" "takeQuality (q @ rest) = (q, rest)"
    "t = \<lparr>rawText = s, root = r, quality = q, bass = takeBass rest\<rparr>"
  using assms
  by (auto simp: extractChord_def split: option.splits prod.splits dest: takeQuality_split)

lemma extractChord_returns_iff:
  "(\<exists>t. extractChord s = Inr t) \<longleftrightarrow> s \<noteq> [] \<and> isNoteLetter (hd s)"
  using takeNote_None_iff[of s]
  by (auto simp: extractChord_def split: option.splits prod.splits)

lemma extractChord_malformed_iff:
  "extractChord s = Inl MalformedChordError \<longleftrightarrow> s = [] \<or> \<not> isNoteLetter (hd s)"
  using takeNote_None_iff[of s]
  by (auto simp: extractChord_def split: option.splits prod.splits)

lemma extractChord_bass_eq:
  assumes "extractChord s = Inr t"
  shows "bass t = noteAfterFirstSlash s"
proof -
  from assms obtain r q rest where n: "takeNote s = Some (r, q @ rest)"
    and k: "takeQuality (q @ rest) = (q, rest)"
    and t: "t = \<lparr>rawText = s, root = r, quality = q, bass = takeBass rest\<rparr>"
    by (rule extractChord_Inr)
  from takeNote_Some[OF n] have s: "s = (r @ q) @ rest" and r: "CHR ''/'' \<notin> set r"
    by simp_all
  from takeQuality_no_slash[OF k] r have "CHR ''/'' \<notin> set (r @ q)" by simp
  then have "noteAfterFirstSlash s = noteAfterFirstSlash rest"
    unfolding s noteAfterFirstSlash_def using dropWhile_no_slash[of "r @ q" rest] by simp
  with takeBass_eq[OF takeQuality_stop[OF k]] t show ?thesis by simp
qed

lemma extractChord_fields_no_slash:
  assumes "extractChord s = Inr t"
  shows "rawText t = s" "CHR ''/'' \<notin> set (root t)" "CHR ''/'' \<notin> set (quality t)"
    "bass t = Some b \<Longrightarrow> CHR ''/'' \<notin> set b"
proof -
  from assms obtain r q rest where n: "takeNote s = Some (r, q @ rest)"
    and k: "takeQuality (q @ rest) = (q, rest)"
    and t: "t = \<lparr>rawText = s, root = r, quality = q, bass = takeBass rest\<rparr>"
    by (rule extractChord_Inr)
  show "rawText t = s" using t by simp
  show "CHR ''/'' \<notin> set (root t)" using t takeNote_Some[OF n] by simp
  show "CHR ''/'' \<notin> set (quality t)" using t takeQuality_no_slash[OF k] by simp
  show "CHR ''/'' \<notin> set b" if "bass t = Some b"
    using that t takeBass_no_slash[of rest b] by simp
qed

lemma noteAfterFirstSlash_trailing:
  "CHR ''/'' \<notin> set s \<Longrightarrow> noteAfterFirstSlash (s @ ''/'') = None"
  unfolding noteAfterFirstSlash_def using dropWhile_no_slash[of s "''/''"] by simp

lemma noteAfterFirstSlash_note:
  assumes "CHR ''/'' \<notin> set p" and "takeNote b = Some (b, [])"
  shows "noteAfterFirstSlash (p @ ''/'' @ b) = Some b"
proof -
  from assms(2) have "noteAfterFirstSlash (''/'' @ b) = Some b"
    by (cases b) (auto simp: noteAfterFirstSlash_def split: list.splits if_splits)
  then show ?thesis
    unfolding noteAfterFirstSlash_def using dropWhile_no_slash[OF assms(1), of "''/'' @ b"]
    by simp
qed

lemmas extractChord_eval =
  extractChord_def takeBass_def closeTag_def isNoteLetter_def isAccidental_def

lemma extractChord_examples:
  "extractChord ''A/'' = Inr \<lparr>rawText = ''A/'', root = ''A'', quality = '''', bass = None\<rparr>"
  "extractChord ''G7/B'' = Inr \<lparr>rawText = ''G7/B'', root = ''G'', quality = ''7'', bass = Some ''B''\<rparr>"
  "extractChord ''C#m/Eb'' =
     Inr \<lparr>rawText = ''C#m/Eb'', root = ''C#'', quality = ''m'', bass = Some ''Eb''\<rparr>"
  by (simp_all add: extractChord_eval)

text \<open>
  Claim C5. Whenever \<open>extractChord\<close> returns a chord token, for any input string, the
  quality of the token does not contain the character \<open>/\<close>.
\<close>

theorem quality_never_contains_slash:
  assumes "extractChord s = Inr t"
  shows "CHR ''/'' \<notin> set (quality t)"
proof -
  from assms obtain r q rest where k: "takeQuality (q @ rest) = (q, rest)"
    and t: "t = \<lparr>rawText = s, root = r, quality = q, bass = takeBass rest\<rparr>"
    by (rule extractChord_Inr)
  from takeQuality_no_slash[OF k] t show ?thesis by simp
qed

theorem quality_never_contains_slash_witness:
  "extractChord ''C#m/Eb'' =
     Inr \<lparr>rawText = ''C#m/Eb'', root = ''C#'', quality = ''m'', bass = Some ''Eb''\<rparr>
   \<and> CHR ''/'' \<notin> set (quality \<lparr>rawText = ''C#m/Eb'', root = ''C#'', quality = ''m'', bass = Some ''Eb''\<rparr>)"
proof -
  have e: "extractChord ''C#m/Eb'' =
     Inr \<lparr>rawText = ''C#m/Eb'', root = ''C#'', quality = ''m'', bass = Some ''Eb''\<rparr>"
    by (rule extractChord_examples)
  from quality_never_contains_slash[OF e] e show ?thesis by simp
qed

text \<open>
  Claim C1, as stated, fails in two places: the token keeps the tag interior as scraped in
  \<open>rawText\<close>, so the trailing \<open>/\<close> of \<open>A/\<close> is still in a field of the token; and
  an interior with no root, such as \<open>/\<close> alone (the empty string followed by \<open>/\<close>),
  gives \<open>MalformedChordError\<close> and no token whose bass could be null.
\<close>

theorem extractChord_trailing_slash_in_rawText:
  "extractChord ''A/'' = Inr \<lparr>rawText = ''A/'', root = ''A'', quality = [], bass = None\<rparr>
   \<and> CHR ''/'' \<in> set (rawText \<lparr>rawText = ''A/'', root = ''A'', quality = [], bass = None\<rparr>)
   \<and> CHR ''/'' \<notin> set []
   \<and> extractChord ([] @ ''/'') = Inl MalformedChordError"
  by (simp add: extractChord_eval)

text \<open>
  Claim C1, amended. \<open>extractChord\<close> returns a token exactly for the tag interiors that
  start with a note letter, and \<open>MalformedChordError\<close> for all others. For every token \<open>t\<close> it returns on an interior \<open>s\<close>:
  \<open>rawText\<close> is \<open>s\<close> as scraped; the bass is the note letter, with its accidental, that
  immediately follows the first \<open>/\<close> of \<open>s\<close>, and is null when there is no \<open>/\<close> or
  no note letter right after it; and \<open>/\<close> occurs in none of root, quality and bass. In
  particular, for \<open>s\<close> without \<open>/\<close>, a token returned for \<open>s\<close> followed by \<open>/\<close>
  has no bass, and a token returned for \<open>s\<close> followed by \<open>/\<close> and a note \<open>b\<close> has
  the bass \<open>b\<close>. The three examples hold, with \<open>rawText\<close> the input.
\<close>

theorem extractChord_bass:
  "(\<forall>t. extractChord s = Inr t \<longrightarrow>
      rawText t = s
      \<and> bass t = noteAfterFirstSlash s
      \<and> CHR ''/'' \<notin> set (root t)
      \<and> CHR ''/'' \<notin> set (quality t)
      \<and> (\<forall>b. bass t = Some b \<longrightarrow> CHR ''/'' \<notin> set b))
   \<and> ((\<exists>t. extractChord s = Inr t) \<longleftrightarrow> s \<noteq> [] \<and> isNoteLetter (hd s))
   \<and> (extractChord s = Inl MalformedChordError \<longleftrightarrow> s = [] \<or> \<not> isNoteLetter (hd s))
   \<and> (CHR ''/'' \<notin> set s \<longrightarrow>
        (\<forall>t. extractChord (s @ ''/'') = Inr t \<longrightarrow> bass t = None))
   \<and> (CHR ''/'' \<notin> set s \<and> takeNote b = Some (b, []) \<longrightarrow>
        (\<forall>t. extractChord (s @ ''/'' @ b) = Inr t \<longrightarrow> bass t = Some b))
   \<and> extractChord ''A/'' = Inr \<lparr>rawText = ''A/'', root = ''A'', quality = [], bass = None\<rparr>
   \<and> extractChord ''G7/B'' =
        Inr \<lparr>rawText = ''G7/B'', root = ''G'', quality = ''7'', bass = Some ''B''\<rparr>
   \<and> extractChord ''C#m/Eb'' =
        Inr \<lparr>rawText = ''C#m/Eb'', root = ''C#'', quality = ''m'', bass = Some ''Eb''\<rparr>"
proof (intro conjI allI impI)
  fix t assume "extractChord s = Inr t"
  then show "rawText t = s" "bass t = noteAfterFirstSlash s"
    "CHR ''/'' \<notin> set (root t)" "CHR ''/'' \<notin> set (quality t)"
    by (simp_all add: extractChord_fields_no_slash extractChord_bass_eq)
next
  fix t b' assume "extractChord s = Inr t" "bass t = Some b'"
  then show "CHR ''/'' \<notin> set b'" by (rule extractChord_fields_no_slash)
next
  show "(\<exists>t. extractChord s = Inr t) \<longleftrightarrow> s \<noteq> [] \<and> isNoteLetter (hd s)"
    by (rule extractChord_returns_iff)
next
  show "extractChord s = Inl MalformedChordError \<longleftrightarrow> s = [] \<or> \<not> isNoteLetter (hd s)"
    by (rule extractChord_malformed_iff)
next
  fix t assume "CHR ''/'' \<notin> set s" "extractChord (s @ ''/'') = Inr t"
  then show "bass t = None"
    by (simp add: extractChord_bass_eq noteAfterFirstSlash_trailing)
next
  fix t assume "CHR ''/'' \<notin> set s \<and> takeNote b = Some (b, [])"
    "extractChord (s @ ''/'' @ b) = Inr t"
  then show "bass t = Some b"
    using noteAfterFirstSlash_note[of s b] by (simp add: extractChord_bass_eq)
qed (rule extractChord_examples)+

theorem extractChord_bass_witness:
  "extractChord ''G7/B'' =
     Inr \<lparr>rawText = ''G7/B'', root = ''G'', quality = ''7'', bass = Some ''B''\<rparr>
   \<and> noteAfterFirstSlash ''G7/B'' = Some ''B''
   \<and> CHR ''/'' \<notin> set ''Am''
   \<and> extractChord (''Am'' @ ''/'') =
       Inr \<lparr>rawText = ''Am/'', root = ''A'', quality = ''m'', bass = None\<rparr>
   \<and> takeNote ''Bb'' = Some (''Bb'', [])
   \<and> extractChord (''Am'' @ ''/'' @ ''Bb'') =
       Inr \<lparr>rawText = ''Am/Bb'', root = ''A'', quality = ''m'', bass = Some ''Bb''\<rparr>"
proof -
  have g: "extractChord ''G7/B'' =
     Inr \<lparr>rawText = ''G7/B'', root = ''G'', quality = ''7'', bass = Some ''B''\<rparr>"
    by (simp add: extractChord_eval)
  have a: "extractChord (''Am'' @ ''/'') =
       Inr \<lparr>rawText = ''Am/'', root = ''A'', quality = ''m'', bass = None\<rparr>"
    by (simp add: extractChord_eval)
  have b: "extractChord (''Am'' @ ''/'' @ ''Bb'') =
       Inr \<lparr>rawText = ''Am/Bb'', root = ''A'', quality = ''m'', bass = Some ''Bb''\<rparr>"
    by (simp add: extractChord_eval)
  have n: "CHR ''/'' \<notin> set ''Am''" "takeNote ''Bb'' = Some (''Bb'', [])"
    by (simp_all add: isNoteLetter_def isAccidental_def)
  from extractChord_bass[of "''G7/B''"] g
  have "noteAfterFirstSlash ''G7/B'' = Some ''B''" by simp
  with extractChord_bass[of "''Am''" "''Bb''"] g a b n show ?thesis by simp
qed

end
